theory Spec2Isabelle
  imports Main
begin

section \<open>JavaScript values and characters\<close>

text \<open>
  The two fields read from the request body, and the result of a store read, are
  JavaScript values. The service handles them at the types of its interface: a string,
  \<open>undefined\<close> (a property the body does not have) or \<open>null\<close> (a key the store
  does not hold). A string is a list of characters; only ASCII classes are ever tested.
\<close>

datatype jsval = Undefined | Null | Str string

fun ToBoolean :: "jsval \<Rightarrow> bool" where
  "ToBoolean Undefined = False"
| "ToBoolean Null = False"
| "ToBoolean (Str s) = (s \<noteq> [])"

fun ToString :: "jsval \<Rightarrow> string" where
  "ToString Undefined = ''undefined''"
| "ToString Null = ''null''"
| "ToString (Str s) = s"

definition char_code :: "char \<Rightarrow> nat" where
  "char_code c = of_char c"

definition lower_alpha :: "char \<Rightarrow> bool" where
  "lower_alpha c = (97 \<le> char_code c \<and> char_code c \<le> 122)"

definition upper_alpha :: "char \<Rightarrow> bool" where
  "upper_alpha c = (65 \<le> char_code c \<and> char_code c \<le> 90)"

definition digit :: "char \<Rightarrow> bool" where
  "digit c = (48 \<le> char_code c \<and> char_code c \<le> 57)"

definition to_lower :: "char \<Rightarrow> char" where
  "to_lower c = (if upper_alpha c then char_of (char_code c + 32) else c)"

text \<open>\<open>String.prototype.charAt\<close>: the empty string outside the string.\<close>

definition charAt :: "string \<Rightarrow> int \<Rightarrow> string" where
  "charAt s i = (if 0 \<le> i \<and> i < int (length s) then [s ! nat i] else [])"

section \<open>The URL constructor\<close>

text \<open>
  \<open>new URL(url)\<close> with no base runs the basic URL parser of the URL Standard on the
  string. The states that every input goes through are written out here: the removal of
  leading and trailing C0 control or space and of every tab and newline, the scheme start
  state and the scheme state (without a base, leaving either of them without a scheme
  is failure), and the choice of the state that follows the scheme.

  The states after the scheme belong to the runtime and are parameters:
  \<open>authority_path\<close> stands for the states entered for a special scheme or for a
  remainder that begins with a slash (authority, host, port, path, query and fragment);
  given the scheme and the remainder it fails or gives the host (if any) and the
  serialisation of what follows \<open>scheme:\<close>. \<open>opaque_path\<close> stands for the opaque path
  state with the query and fragment states, none of which can fail; it gives the
  serialisation of what follows \<open>scheme:\<close>.
\<close>

record platform =
  authority_path :: "string \<Rightarrow> string \<Rightarrow> (string option \<times> string) option"
  opaque_path :: "string \<Rightarrow> string"

record url =
  scheme :: string
  host :: "string option"
  href :: string

definition c0_control_or_space :: "char \<Rightarrow> bool" where
  "c0_control_or_space c = (char_code c \<le> 32)"

definition tab_or_newline :: "char \<Rightarrow> bool" where
  "tab_or_newline c = (char_code c = 9 \<or> char_code c = 10 \<or> char_code c = 13)"

definition preprocess :: "string \<Rightarrow> string" where
  "preprocess input =
     filter (\<lambda>c. \<not> tab_or_newline c)
       (rev (dropWhile c0_control_or_space (rev (dropWhile c0_control_or_space input))))"

definition scheme_char :: "char \<Rightarrow> bool" where
  "scheme_char c =
     (lower_alpha c \<or> upper_alpha c \<or> digit c \<or> c = CHR ''+'' \<or> c = CHR ''-'' \<or> c = CHR ''.'')"

fun scheme_state :: "string \<Rightarrow> string \<Rightarrow> (string \<times> string) option" where
  "scheme_state buffer [] = None"
| "scheme_state buffer (c # cs) =
     (if scheme_char c then scheme_state (buffer @ [to_lower c]) cs
      else if c = CHR '':'' then Some (buffer, cs)
      else None)"

fun scheme_start_state :: "string \<Rightarrow> (string \<times> string) option" where
  "scheme_start_state [] = None"
| "scheme_start_state (c # cs) =
     (if lower_alpha c \<or> upper_alpha c then scheme_state [to_lower c] cs else None)"

definition special_schemes :: "string list" where
  "special_schemes = [''ftp'', ''file'', ''http'', ''https'', ''ws'', ''wss'']"

definition starts_with_slash :: "string \<Rightarrow> bool" where
  "starts_with_slash s = (case s of [] \<Rightarrow> False | c # _ \<Rightarrow> c = CHR ''/'')"

definition url_parse :: "platform \<Rightarrow> string \<Rightarrow> url option" where
  "url_parse P input =
     (case scheme_start_state (preprocess input) of
        None \<Rightarrow> None
      | Some (sch, remaining) \<Rightarrow>
          if List.member special_schemes sch \<or> starts_with_slash remaining then
            (case authority_path P sch remaining of
               None \<Rightarrow> None
             | Some (h, rest) \<Rightarrow> Some \<lparr>scheme = sch, host = h, href = sch @ '':'' @ rest\<rparr>)
          else
            Some \<lparr>scheme = sch, host = None, href = sch @ '':'' @ opaque_path P remaining\<rparr>)"

text \<open>\<open>isValidUrl\<close>: true when the constructor returns, false when it throws.\<close>

definition isValidUrl :: "platform \<Rightarrow> jsval \<Rightarrow> bool" where
  "isValidUrl P u = (case url_parse P (ToString u) of Some _ \<Rightarrow> True | None \<Rightarrow> False)"

section \<open>Random identifiers\<close>

text \<open>
  A Number is an IEEE 754 double. The doubles that occur here are finite and not
  negative: the pair \<open>(m, k)\<close> stands for \<open>m / 2^k\<close>, a double when \<open>m\<close> has at
  most 53 significant bits and \<open>k\<close> is at most 1074. \<open>Math.random()\<close> returns a
  double in \<open>[0, 1)\<close> (\<open>unit_double\<close>); \<open>rnd i\<close> is what its \<open>i\<close>-th call
  returns.

  \<open>Math.random() * chars.length\<close> is the product of two doubles, rounded to nearest,
  ties to even. The length is a small integer \<open>n\<close>, so the exact product is
  \<open>(m * n) / 2^k\<close>: a double as it stands when \<open>m * n < 2^53\<close>, and otherwise
  rounded to 53 significant bits (\<open>round_to_double\<close>; \<open>excess_bits\<close> counts the bits
  that do not fit). \<open>Math.floor\<close> of the double \<open>(q, k)\<close> is \<open>q div 2^k\<close>.
\<close>

type_synonym double = "nat \<times> nat"

definition unit_double :: "double \<Rightarrow> bool" where
  "unit_double x = (fst x < 2 ^ 53 \<and> snd x \<le> 1074 \<and> fst x < 2 ^ snd x)"

function excess_bits :: "nat \<Rightarrow> nat" where
  "excess_bits n = (if n < 2 ^ 53 then 0 else Suc (excess_bits (n div 2)))"
  by pat_completeness auto
termination
  by (relation "measure (\<lambda>n. n)") auto

declare excess_bits.simps [simp del]

definition round_to_double :: "nat \<Rightarrow> nat" where
  "round_to_double n =
     (let d = excess_bits n; q = n div 2 ^ d; r = n mod 2 ^ d
      in if 2 ^ d < 2 * r \<or> (2 * r = 2 ^ d \<and> odd q) then (q + 1) * 2 ^ d else q * 2 ^ d)"

definition times_nat :: "double \<Rightarrow> nat \<Rightarrow> double" where
  "times_nat x n = (round_to_double (fst x * n), snd x)"

definition math_floor :: "double \<Rightarrow> int" where
  "math_floor x = int (fst x div 2 ^ snd x)"

definition chars :: string where
  "chars = ''abcdefghijklmnopqrstuvwxyzABCDEFGHIJKLMNOPQRSTUVWXYZ0123456789''"

function generateRandomId_loop :: "(nat \<Rightarrow> double) \<Rightarrow> nat \<Rightarrow> nat \<Rightarrow> string \<Rightarrow> string" where
  "generateRandomId_loop rnd len i result =
     (if i < len
      then generateRandomId_loop rnd len (i + 1)
             (result @ charAt chars (math_floor (times_nat (rnd i) (length chars))))
      else result)"
  by pat_completeness auto
termination
  by (relation "measure (\<lambda>(rnd, len, i, result). len - i)") auto

declare generateRandomId_loop.simps [simp del]

definition generateRandomId :: "(nat \<Rightarrow> double) \<Rightarrow> nat \<Rightarrow> string" where
  "generateRandomId rnd len = generateRandomId_loop rnd len 0 []"

section \<open>The store, requests and responses\<close>

text \<open>
  \<open>env.URL_KV\<close> is a key-value namespace with string keys and string values.
  \<open>get\<close> resolves to the value, to \<open>null\<close> for a key that is not there, or rejects
  (\<open>get_rejects\<close>: the reads that fail). Each handler returns, with its response, the
  store operations it issued, in order; a \<open>Put\<close> is handed to \<open>ctx.waitUntil\<close> and
  lands after the response (\<open>land\<close>). Requests are taken one at a time: what two
  concurrent requests do to each other is not part of this model.
\<close>

record env =
  URL_KV :: "string \<rightharpoonup> string"
  get_rejects :: "string \<Rightarrow> bool"

datatype exn = SyntaxError | TypeError | RangeError | KVError

datatype kv_op = Get string | Put string string

definition kv_get :: "env \<Rightarrow> string \<Rightarrow> exn + jsval" where
  "kv_get e k =
     (if get_rejects e k then Inl KVError
      else Inr (case URL_KV e k of None \<Rightarrow> Null | Some v \<Rightarrow> Str v))"

fun apply_op :: "kv_op \<Rightarrow> (string \<rightharpoonup> string) \<Rightarrow> (string \<rightharpoonup> string)" where
  "apply_op (Get k) m = m"
| "apply_op (Put k v) m = m(k \<mapsto> v)"

definition land :: "kv_op list \<Rightarrow> env \<Rightarrow> env" where
  "land ops e = e\<lparr>URL_KV := fold apply_op ops (URL_KV e)\<rparr>"

text \<open>
  The body of a response is kept structured: a text, the object given to
  \<open>JSON.stringify\<close> as its list of properties, the static page, or nothing. The headers
  are those the code sets.
\<close>

datatype body = Text string | Json "(string \<times> string) list" | Html_page | No_body

datatype response = Response (status: nat) (body: body) (headers: "(string \<times> string) list")

text \<open>
  What \<open>request.json()\<close> gives: it rejects on a body that is not JSON; \<open>null\<close> has no
  properties to destructure; of any other value the two properties are read (a value
  that is not an object has neither).
\<close>

datatype json_body = Unparseable | Json_null | Json_object jsval jsval

record request =
  http_method :: string
  pathname :: string
  origin :: string
  payload :: json_body

text \<open>
  \<open>Response.redirect(url, status)\<close> of the Fetch Standard: it parses \<open>url\<close> and throws
  a TypeError on failure, throws a RangeError unless the status is a redirect status,
  and sets \<open>Location\<close> to the serialisation of the parsed URL.
\<close>

definition redirect :: "platform \<Rightarrow> string \<Rightarrow> nat \<Rightarrow> exn + response" where
  "redirect P u st =
     (case url_parse P u of
        None \<Rightarrow> Inl TypeError
      | Some parsed \<Rightarrow>
          if \<not> List.member [301, 302, 303, 307, 308] st then Inl RangeError
          else Inr (Response st No_body [(''Location'', href parsed)]))"

definition internal_server_error :: response where
  "internal_server_error = Response 500 (Text ''Internal Server Error'') []"

section \<open>The handlers\<close>

text \<open>
  Both handlers are one \<open>try\<close> block whose \<open>catch\<close> answers 500. The block is a
  function to an exception or a response, with the store operations issued on the way.
\<close>

definition catch :: "(exn + response) \<times> kv_op list \<Rightarrow> response \<times> kv_op list" where
  "catch r = (case fst r of Inl err \<Rightarrow> (internal_server_error, snd r) | Inr resp \<Rightarrow> (resp, snd r))"

definition handleRedirect_try :: "platform \<Rightarrow> string \<Rightarrow> env \<Rightarrow> (exn + response) \<times> kv_op list" where
  "handleRedirect_try P shortId e =
     (case kv_get e shortId of
        Inl err \<Rightarrow> (Inl err, [Get shortId])
      | Inr longUrl \<Rightarrow>
          if ToBoolean longUrl then (redirect P (ToString longUrl) 302, [Get shortId])
          else (Inr (Response 404 (Text ''Short link not found'') []), [Get shortId]))"

definition handleRedirect :: "platform \<Rightarrow> string \<Rightarrow> env \<Rightarrow> response \<times> kv_op list" where
  "handleRedirect P shortId e = catch (handleRedirect_try P shortId e)"

text \<open>The test \<open>/^[a-zA-Z0-9_-]+$/.test(shortId)\<close>.\<close>

definition id_char :: "char \<Rightarrow> bool" where
  "id_char c = (lower_alpha c \<or> upper_alpha c \<or> digit c \<or> c = CHR ''_'' \<or> c = CHR ''-'')"

definition id_regex :: "string \<Rightarrow> bool" where
  "id_regex s = (s \<noteq> [] \<and> list_all id_char s)"

text \<open>\<open>const { longUrl, customId } = await request.json()\<close>.\<close>

definition request_json :: "request \<Rightarrow> exn + jsval \<times> jsval" where
  "request_json req =
     (case payload req of
        Unparseable \<Rightarrow> Inl SyntaxError
      | Json_null \<Rightarrow> Inl TypeError
      | Json_object longUrl customId \<Rightarrow> Inr (longUrl, customId))"

definition created :: "request \<Rightarrow> string \<Rightarrow> jsval \<Rightarrow> response" where
  "created req shortId longUrl =
     Response 201
       (Json [(''shortUrl'', origin req @ ''/'' @ shortId), (''longUrl'', ToString longUrl)])
       [(''Content-Type'', ''application/json'')]"

text \<open>
  Where the put is reached, \<open>longUrl\<close> has passed \<open>isValidUrl\<close> and is a string
  (\<open>undefined\<close> and \<open>null\<close> do not parse), so \<open>ToString\<close> is the identity on it.
\<close>

definition handleCreate_try ::
  "platform \<Rightarrow> request \<Rightarrow> env \<Rightarrow> (nat \<Rightarrow> double) \<Rightarrow> (exn + response) \<times> kv_op list" where
  "handleCreate_try P req e rnd =
     (case request_json req of
        Inl err \<Rightarrow> (Inl err, [])
      | Inr (longUrl, customId) \<Rightarrow>
          if \<not> isValidUrl P longUrl then (Inr (Response 400 (Text ''Invalid URL'') []), [])
          else if \<not> ToBoolean customId then
            (let shortId = generateRandomId rnd 6
             in (Inr (created req shortId longUrl), [Put shortId (ToString longUrl)]))
          else
            (let shortId = ToString customId in
             if \<not> id_regex shortId then
               (Inr (Response 400
                  (Text ''Custom ID can only contain letters, numbers, hyphens, and underscores'')
                  []), [])
             else
               (case kv_get e shortId of
                  Inl err \<Rightarrow> (Inl err, [Get shortId])
                | Inr existingUrl \<Rightarrow>
                    if ToBoolean existingUrl then
                      (Inr (Response 409 (Text ''Custom ID already exists'') []), [Get shortId])
                    else
                      (Inr (created req shortId longUrl),
                       [Get shortId, Put shortId (ToString longUrl)]))))"

definition handleCreate ::
  "platform \<Rightarrow> request \<Rightarrow> env \<Rightarrow> (nat \<Rightarrow> double) \<Rightarrow> response \<times> kv_op list" where
  "handleCreate P req e rnd = catch (handleCreate_try P req e rnd)"

definition serveStaticFile :: "request \<Rightarrow> response \<times> kv_op list" where
  "serveStaticFile req = (Response 200 Html_page [(''Content-Type'', ''text/html'')], [])"

definition fetch :: "platform \<Rightarrow> request \<Rightarrow> env \<Rightarrow> (nat \<Rightarrow> double) \<Rightarrow> response \<times> kv_op list" where
  "fetch P req e rnd =
     (let path = drop 1 (pathname req) in
      if path = [] \<or> path = ''index.html'' then serveStaticFile req
      else if path = ''api/create'' then
        (if http_method req = ''POST'' then handleCreate P req e rnd
         else (Response 405 (Text ''Method not allowed'') [], []))
      else if path \<noteq> [] then handleRedirect P path e
      else (Response 404 (Text ''Not Found'') [], []))"

text \<open>
  The stores the service can produce: it starts empty, and any put that some create
  call issues may land.
\<close>

inductive reachable :: "platform \<Rightarrow> (string \<rightharpoonup> string) \<Rightarrow> bool" for P :: platform where
  reachable_empty: "reachable P Map.empty"
| reachable_put:
    "reachable P m \<Longrightarrow> Put k v \<in> set (snd (handleCreate P req e rnd)) \<Longrightarrow> reachable P (m(k \<mapsto> v))"

section \<open>Facts about the URL constructor\<close>

lemma no_scheme_undefined: "scheme_start_state (preprocess ''undefined'') = None"
  by code_simp

lemma no_scheme_null: "scheme_start_state (preprocess ''null'') = None"
  by code_simp

lemma no_scheme_empty: "scheme_start_state (preprocess []) = None"
  by code_simp

lemma url_parse_no_scheme: "scheme_start_state (preprocess s) = None \<Longrightarrow> url_parse P s = None"
  by (simp add: url_parse_def)

lemma isValidUrl_is_string: "isValidUrl P u \<Longrightarrow> \<exists>s. u = Str s \<and> s \<noteq> []"
  by (cases u)
     (auto simp: isValidUrl_def url_parse_no_scheme no_scheme_undefined no_scheme_null
        no_scheme_empty)

lemma mailto_scheme: "scheme_start_state (preprocess ''mailto:a'') = Some (''mailto'', ''a'')"
  by code_simp

lemma mailto_upper_scheme: "scheme_start_state (preprocess ''MAILTO:a'') = Some (''mailto'', ''a'')"
  by code_simp

lemma mailto_not_special: "''mailto'' \<notin> set special_schemes"
  by (simp add: special_schemes_def)

lemma url_parse_mailto:
  "url_parse P ''mailto:a'' =
     Some \<lparr>scheme = ''mailto'', host = None, href = ''mailto:'' @ opaque_path P ''a''\<rparr>"
  by (simp add: url_parse_def mailto_scheme mailto_not_special starts_with_slash_def)

lemma url_parse_mailto_upper:
  "url_parse P ''MAILTO:a'' =
     Some \<lparr>scheme = ''mailto'', host = None, href = ''mailto:'' @ opaque_path P ''a''\<rparr>"
  by (simp add: url_parse_def mailto_upper_scheme mailto_not_special starts_with_slash_def)

lemma isValidUrl_mailto: "isValidUrl P (Str ''mailto:a'')"
  by (simp add: isValidUrl_def url_parse_mailto)

lemma isValidUrl_mailto_upper: "isValidUrl P (Str ''MAILTO:a'')"
  by (simp add: isValidUrl_def url_parse_mailto_upper)

section \<open>A body that is not JSON\<close>

lemma handleCreate_unparseable:
  "payload req = Unparseable \<Longrightarrow> handleCreate P req e rnd = (internal_server_error, [])"
  by (simp add: handleCreate_def handleCreate_try_def request_json_def catch_def)

text \<open>
  C1, as the code has it. \<open>request.json()\<close> rejects inside the \<open>try\<close> block of
  \<open>handleCreate\<close>, and its \<open>catch\<close> answers every exception alike: a POST to
  \<open>/api/create\<close> whose body is not parseable JSON gets status 500 with the text
  Internal Server Error, and no store operation is issued.
\<close>

theorem create_malformed_json_500:
  "http_method req = ''POST'' \<Longrightarrow> pathname req = ''/api/create'' \<Longrightarrow> payload req = Unparseable \<Longrightarrow>
   fetch P req e rnd = (Response 500 (Text ''Internal Server Error'') [], [])"
  by (simp add: fetch_def handleCreate_unparseable internal_server_error_def)

theorem create_malformed_json_500_witness:
  "\<forall>P e rnd.
     fetch P \<lparr>http_method = ''POST'', pathname = ''/api/create'', origin = ''https://s.example'',
       payload = Unparseable\<rparr> e rnd
     = (Response 500 (Text ''Internal Server Error'') [], [])"
proof (intro allI)
  fix P e rnd
  show "fetch P \<lparr>http_method = ''POST'', pathname = ''/api/create'', origin = ''https://s.example'',
       payload = Unparseable\<rparr> e rnd
     = (Response 500 (Text ''Internal Server Error'') [], [])"
    using create_malformed_json_500 [of "\<lparr>http_method = ''POST'', pathname = ''/api/create'',
       origin = ''https://s.example'', payload = Unparseable\<rparr>" P e rnd]
    by simp
qed

text \<open>
  C1 as the specification states it (status 400 for a body that is not JSON) fails on
  every such request; here on one.
\<close>

theorem create_malformed_json_not_400:
  "\<forall>P e rnd.
     status (fst (fetch P \<lparr>http_method = ''POST'', pathname = ''/api/create'',
       origin = ''https://s.example'', payload = Unparseable\<rparr> e rnd)) \<noteq> 400"
  by (simp add: fetch_def handleCreate_unparseable internal_server_error_def)

section \<open>The branches of handleCreate\<close>

lemma handleCreate_invalid:
  "payload req = Json_object lu cid \<Longrightarrow> \<not> isValidUrl P lu \<Longrightarrow>
   handleCreate P req e rnd = (Response 400 (Text ''Invalid URL'') [], [])"
  by (simp add: handleCreate_def handleCreate_try_def request_json_def catch_def)

lemma handleCreate_generated:
  "payload req = Json_object lu cid \<Longrightarrow> isValidUrl P lu \<Longrightarrow> \<not> ToBoolean cid \<Longrightarrow>
   handleCreate P req e rnd =
     (created req (generateRandomId rnd 6) lu, [Put (generateRandomId rnd 6) (ToString lu)])"
  by (simp add: handleCreate_def handleCreate_try_def request_json_def catch_def Let_def)

lemma handleCreate_bad_id:
  "payload req = Json_object lu cid \<Longrightarrow> isValidUrl P lu \<Longrightarrow> ToBoolean cid \<Longrightarrow>
   \<not> id_regex (ToString cid) \<Longrightarrow>
   handleCreate P req e rnd =
     (Response 400 (Text ''Custom ID can only contain letters, numbers, hyphens, and underscores'') [], [])"
  by (simp add: handleCreate_def handleCreate_try_def request_json_def catch_def Let_def)

lemma handleCreate_read_fails:
  "payload req = Json_object lu cid \<Longrightarrow> isValidUrl P lu \<Longrightarrow> ToBoolean cid \<Longrightarrow>
   id_regex (ToString cid) \<Longrightarrow> get_rejects e (ToString cid) \<Longrightarrow>
   handleCreate P req e rnd = (internal_server_error, [Get (ToString cid)])"
  by (simp add: handleCreate_def handleCreate_try_def request_json_def catch_def Let_def kv_get_def)

lemma handleCreate_conflict:
  "payload req = Json_object lu cid \<Longrightarrow> isValidUrl P lu \<Longrightarrow> ToBoolean cid \<Longrightarrow>
   id_regex (ToString cid) \<Longrightarrow> \<not> get_rejects e (ToString cid) \<Longrightarrow>
   URL_KV e (ToString cid) = Some v \<Longrightarrow> v \<noteq> [] \<Longrightarrow>
   handleCreate P req e rnd =
     (Response 409 (Text ''Custom ID already exists'') [], [Get (ToString cid)])"
  by (simp add: handleCreate_def handleCreate_try_def request_json_def catch_def Let_def kv_get_def)

lemma handleCreate_custom:
  "payload req = Json_object lu cid \<Longrightarrow> isValidUrl P lu \<Longrightarrow> ToBoolean cid \<Longrightarrow>
   id_regex (ToString cid) \<Longrightarrow> \<not> get_rejects e (ToString cid) \<Longrightarrow>
   URL_KV e (ToString cid) = None \<or> URL_KV e (ToString cid) = Some [] \<Longrightarrow>
   handleCreate P req e rnd =
     (created req (ToString cid) lu, [Get (ToString cid), Put (ToString cid) (ToString lu)])"
  by (auto simp add: handleCreate_def handleCreate_try_def request_json_def catch_def Let_def kv_get_def)

lemma handleCreate_null:
  "payload req = Json_null \<Longrightarrow> handleCreate P req e rnd = (internal_server_error, [])"
  by (simp add: handleCreate_def handleCreate_try_def request_json_def catch_def)

section \<open>The generated identifier\<close>

lemma excess_bits_small: "n < 2 ^ 53 \<Longrightarrow> excess_bits n = 0"
  by (subst excess_bits.simps) simp

lemma excess_bits_le: "n < 2 ^ (53 + j) \<Longrightarrow> excess_bits n \<le> j"
proof (induction j arbitrary: n)
  case 0
  then show ?case by (simp add: excess_bits_small)
next
  case (Suc j)
  show ?case
  proof (cases "n < 2 ^ 53")
    case True
    then show ?thesis by (simp add: excess_bits_small)
  next
    case False
    have e: "53 + Suc j = Suc (53 + j)" by simp
    from Suc.prems have "n < 2 ^ (53 + j) * 2" unfolding e power_Suc2 .
    then have "n div 2 < 2 ^ (53 + j)" by (rule less_mult_imp_div_less)
    from Suc.IH [OF this] False show ?thesis
      by (subst excess_bits.simps) simp
  qed
qed

lemma excess_bits_pos: "excess_bits n \<noteq> 0 \<Longrightarrow> 2 ^ 53 \<le> n"
  using excess_bits_small [of n] by (cases "n < 2 ^ 53") auto

lemma round_exact: "n < 2 ^ 53 \<Longrightarrow> round_to_double n = n"
  by (simp add: round_to_double_def excess_bits_small)

lemma round_cases:
  "round_to_double n = (n div 2 ^ excess_bits n) * 2 ^ excess_bits n \<or>
   (round_to_double n = (n div 2 ^ excess_bits n + 1) * 2 ^ excess_bits n \<and>
    2 ^ excess_bits n \<le> 2 * (n mod 2 ^ excess_bits n))"
  by (auto simp: round_to_double_def Let_def)

lemma scale_large:
  assumes "2 ^ 53 \<le> s * 62" "(s::nat) < 2 ^ k"
  shows "6 \<le> (k::nat)"
proof (rule ccontr)
  assume "\<not> 6 \<le> k"
  then have "k \<le> 5" by simp
  then have "(2::nat) ^ k \<le> 2 ^ 5" by (intro power_increasing) simp_all
  with assms(2) have "s < 32" by simp
  then have "s * 62 < 2 ^ 53" by simp
  with assms(1) show False by simp
qed

lemma index_bounds:
  assumes s: "s < 2 ^ 53" and k: "s < 2 ^ k"
  shows "round_to_double (s * 62) div 2 ^ k < 62 \<and>
         (round_to_double (s * 62) div 2 ^ k = (s * 62) div 2 ^ k \<or>
          round_to_double (s * 62) div 2 ^ k = (s * 62) div 2 ^ k + 1)"
proof (cases "excess_bits (s * 62) = 0")
  case True
  then have "round_to_double (s * 62) = s * 62"
    by (simp add: round_to_double_def)
  moreover have "(s * 62) div 2 ^ k < 62"
    using k by (simp add: less_mult_imp_div_less)
  ultimately show ?thesis by simp
next
  case False
  define n where "n = s * 62"
  define d where "d = excess_bits n"
  define p :: nat where "p = 2 ^ d"
  define q where "q = n div p"
  define r where "r = n mod p"
  have big: "2 ^ 53 \<le> n" using False excess_bits_pos unfolding n_def by blast
  have "n < 2 ^ (53 + 6)" using s unfolding n_def by simp
  then have d6: "d \<le> 6" unfolding d_def by (rule excess_bits_le)
  have k6: "6 \<le> k" using big k scale_large unfolding n_def by blast
  with d6 have dk: "d \<le> k" by simp
  define M :: nat where "M = 2 ^ (k - d)"
  have pk: "(2::nat) ^ k = p * M"
    unfolding p_def M_def using dk by (simp flip: power_add)
  have p64: "p \<le> 64"
  proof -
    have "(2::nat) ^ d \<le> 2 ^ 6" using d6 by (intro power_increasing) simp_all
    then show ?thesis by (simp add: p_def)
  qed
  have ppos: "0 < p" by (simp add: p_def)
  have Mpos: "0 < M" by (simp add: M_def)
  have nqr: "n = q * p + r" by (simp add: q_def r_def)
  have rp: "r < p" using ppos by (simp add: r_def)
  have nk: "n + 62 \<le> 62 * 2 ^ k" using k by (simp add: n_def)
  have floor_q: "n div 2 ^ k = q div M"
    by (simp add: pk q_def div_mult2_eq)
  have down: "(q * p) div 2 ^ k = q div M"
    using ppos by (simp add: pk div_mult2_eq)
  have up: "((q + 1) * p) div 2 ^ k = (q + 1) div M"
    using ppos by (simp add: pk div_mult2_eq)
  have step: "(q + 1) div M = q div M \<or> (q + 1) div M = q div M + 1"
  proof -
    have "q div M \<le> (q + 1) div M" by (rule div_le_mono) simp
    moreover have "(q + 1) div M \<le> q div M + 1"
    proof -
      have "q + 1 \<le> q + M" using Mpos by simp
      then have "(q + 1) div M \<le> (q + M) div M" by (rule div_le_mono)
      also have "\<dots> = q div M + 1" using Mpos by (simp add: div_add_self2)
      finally show ?thesis .
    qed
    ultimately show ?thesis by linarith
  qed
  from round_cases [of n]
  consider (dn) "round_to_double n = q * p"
    | (up) "round_to_double n = (q + 1) * p" "p \<le> 2 * r"
    unfolding d_def [symmetric] p_def [symmetric] q_def [symmetric] r_def [symmetric] by blast
  then show ?thesis
  proof cases
    case dn
    have "q * p < 62 * 2 ^ k" using nqr nk by linarith
    then have "(q * p) div 2 ^ k < 62" by (simp add: less_mult_imp_div_less)
    with dn down floor_q show ?thesis unfolding n_def [symmetric] by simp
  next
    case up
    have "(q + 1) * p = n + (p - r)" using nqr rp by (simp add: algebra_simps)
    moreover have "p - r \<le> 32" using up(2) p64 by linarith
    ultimately have "(q + 1) * p < 62 * 2 ^ k" using nk by linarith
    then have "((q + 1) * p) div 2 ^ k < 62" by (simp add: less_mult_imp_div_less)
    with up(1) \<open>((q + 1) * p) div 2 ^ k = (q + 1) div M\<close> floor_q step
    show ?thesis unfolding n_def [symmetric] by auto
  qed
qed

lemma loop_eq:
  "generateRandomId_loop rnd len i result =
     result @ concat (map (\<lambda>j. charAt chars (math_floor (times_nat (rnd j) (length chars)))) [i..<len])"
proof (induction rnd len i result rule: generateRandomId_loop.induct)
  case (1 rnd len i result)
  show ?case
  proof (cases "i < len")
    case True
    with "1" show ?thesis
      by (subst generateRandomId_loop.simps) (simp add: upt_conv_Cons)
  next
    case False
    then show ?thesis by (subst generateRandomId_loop.simps) simp
  qed
qed

lemma length_chars: "length chars = 62" by (simp add: chars_def)

lemma floor_of_product:
  "math_floor (times_nat x (length chars)) = int (round_to_double (fst x * 62) div 2 ^ snd x)"
  by (simp add: math_floor_def times_nat_def length_chars)

lemma charAt_draw:
  assumes "unit_double x"
  shows "charAt chars (math_floor (times_nat x (length chars))) =
           [chars ! (round_to_double (fst x * 62) div 2 ^ snd x)]"
proof -
  from assms have "fst x < 2 ^ 53" "fst x < 2 ^ snd x" by (simp_all add: unit_double_def)
  from index_bounds [OF this] have "round_to_double (fst x * 62) div 2 ^ snd x < 62" by simp
  then show ?thesis unfolding floor_of_product by (simp add: charAt_def length_chars)
qed

lemma concat_singletons:
  "\<forall>i<n. f i = [g i] \<Longrightarrow> concat (map f [0..<n]) = map g [0..<n]"
  by (induction n) auto

lemma generateRandomId_map:
  assumes "\<forall>i<len. unit_double (rnd i)"
  shows "generateRandomId rnd len =
           map (\<lambda>j. chars ! (round_to_double (fst (rnd j) * 62) div 2 ^ snd (rnd j))) [0..<len]"
proof -
  have "\<forall>i<len. charAt chars (math_floor (times_nat (rnd i) (length chars))) =
          [chars ! (round_to_double (fst (rnd i) * 62) div 2 ^ snd (rnd i))]"
    using assms by (simp add: charAt_draw)
  then show ?thesis
    by (simp add: generateRandomId_def loop_eq concat_singletons)
qed


lemma six_indices: "[0..<6] = [0, 1, 2, 3, 4, 5]"
  by (simp add: upt_rec)

lemma id_aaaaaa: "generateRandomId (\<lambda>i. (0, 52)) 6 = ''aaaaaa''"
proof -
  have "\<forall>i<6. unit_double ((\<lambda>i. (0, 52)) i)"
    by (simp add: unit_double_def)
  from generateRandomId_map [OF this] show ?thesis
    by (simp add: six_indices round_exact chars_def)
qed









lemma handleCreate_outcome:
  "handleCreate P req e rnd = (internal_server_error, []) \<or>
   handleCreate P req e rnd = (Response 400 (Text ''Invalid URL'') [], []) \<or>
   handleCreate P req e rnd =
     (Response 400 (Text ''Custom ID can only contain letters, numbers, hyphens, and underscores'') [], []) \<or>
   (\<exists>k. handleCreate P req e rnd = (internal_server_error, [Get k])) \<or>
   (\<exists>k. handleCreate P req e rnd = (Response 409 (Text ''Custom ID already exists'') [], [Get k])) \<or>
   (\<exists>lu cid. payload req = Json_object lu cid \<and> isValidUrl P lu \<and> \<not> ToBoolean cid \<and>
      handleCreate P req e rnd =
        (created req (generateRandomId rnd 6) lu, [Put (generateRandomId rnd 6) (ToString lu)])) \<or>
   (\<exists>lu cid. payload req = Json_object lu cid \<and> isValidUrl P lu \<and> ToBoolean cid \<and>
      id_regex (ToString cid) \<and> \<not> get_rejects e (ToString cid) \<and>
      handleCreate P req e rnd =
        (created req (ToString cid) lu, [Get (ToString cid), Put (ToString cid) (ToString lu)]))"
proof (cases "payload req")
  case Unparseable
  then show ?thesis by (simp add: handleCreate_unparseable)
next
  case Json_null
  then show ?thesis by (simp add: handleCreate_null)
next
  case (Json_object lu cid)
  show ?thesis
  proof (cases "isValidUrl P lu")
    case False
    with Json_object show ?thesis by (simp add: handleCreate_invalid)
  next
    case valid: True
    show ?thesis
    proof (cases "ToBoolean cid")
      case False
      with Json_object valid show ?thesis by (simp add: handleCreate_generated)
    next
      case supplied: True
      show ?thesis
      proof (cases "id_regex (ToString cid)")
        case False
        with Json_object valid supplied show ?thesis by (simp add: handleCreate_bad_id)
      next
        case matches: True
        show ?thesis
        proof (cases "get_rejects e (ToString cid)")
          case True
          with Json_object valid supplied matches
          have "handleCreate P req e rnd = (internal_server_error, [Get (ToString cid)])"
            by (rule handleCreate_read_fails)
          then show ?thesis by blast
        next
          case reads: False
          show ?thesis
          proof (cases "\<exists>v. URL_KV e (ToString cid) = Some v \<and> v \<noteq> []")
            case True
            then obtain v where "URL_KV e (ToString cid) = Some v" "v \<noteq> []" by blast
            with Json_object valid supplied matches reads
            have "handleCreate P req e rnd =
                    (Response 409 (Text ''Custom ID already exists'') [], [Get (ToString cid)])"
              by (rule handleCreate_conflict)
            then show ?thesis by blast
          next
            case False
            then have "URL_KV e (ToString cid) = None \<or> URL_KV e (ToString cid) = Some []"
              by (cases "URL_KV e (ToString cid)") auto
            with Json_object valid supplied matches reads
            have "handleCreate P req e rnd =
                    (created req (ToString cid) lu,
                     [Get (ToString cid), Put (ToString cid) (ToString lu)])"
              by (rule handleCreate_custom)
            with Json_object valid supplied matches reads show ?thesis by blast
          qed
        qed
      qed
    qed
  qed
qed

lemma status_created: "status (created req i lu) = 201"
  by (simp add: created_def)

section \<open>What create writes, and what resolve reads\<close>

lemma put_is_valid:
  assumes "Put k v \<in> set (snd (handleCreate P req e rnd))"
  shows "isValidUrl P (Str v) \<and> v \<noteq> []"
proof -
  have "\<exists>lu. isValidUrl P lu \<and> v = ToString lu"
    using handleCreate_outcome [of P req e rnd] assms by auto
  then obtain lu where lu: "isValidUrl P lu" "v = ToString lu" by blast
  from isValidUrl_is_string [OF lu(1)] obtain s where "lu = Str s" "s \<noteq> []" by blast
  with lu show ?thesis by simp
qed

lemma reachable_values:
  "reachable P m \<Longrightarrow> m k = Some v \<Longrightarrow> isValidUrl P (Str v) \<and> v \<noteq> []"
proof (induction arbitrary: k v rule: reachable.induct)
  case reachable_empty
  then show ?case by simp
next
  case (reachable_put m k' v' req e rnd)
  show ?case
  proof (cases "k = k'")
    case True
    with reachable_put.prems have "v = v'" by simp
    with put_is_valid [OF reachable_put.hyps(2)] show ?thesis by simp
  next
    case False
    with reachable_put.prems have "m k = Some v" by simp
    then show ?thesis by (rule reachable_put.IH)
  qed
qed

lemma land_get: "land [Get k] e = e"
  by (simp add: land_def)

lemma isValidUrl_parses: "isValidUrl P (Str v) \<Longrightarrow> \<exists>u. url_parse P v = Some u"
  by (simp add: isValidUrl_def split: option.splits)

lemma handleRedirect_read_fails:
  "get_rejects e shortId \<Longrightarrow>
   handleRedirect P shortId e = (Response 500 (Text ''Internal Server Error'') [], [Get shortId])"
  by (simp add: handleRedirect_def handleRedirect_try_def kv_get_def catch_def internal_server_error_def)

lemma handleRedirect_absent:
  "\<not> get_rejects e shortId \<Longrightarrow> URL_KV e shortId = None \<Longrightarrow>
   handleRedirect P shortId e = (Response 404 (Text ''Short link not found'') [], [Get shortId])"
  by (simp add: handleRedirect_def handleRedirect_try_def kv_get_def catch_def)

lemma handleRedirect_present:
  "\<not> get_rejects e shortId \<Longrightarrow> URL_KV e shortId = Some v \<Longrightarrow> v \<noteq> [] \<Longrightarrow>
   url_parse P v = Some u \<Longrightarrow>
   handleRedirect P shortId e = (Response 302 No_body [(''Location'', href u)], [Get shortId])"
  by (simp add: handleRedirect_def handleRedirect_try_def kv_get_def catch_def redirect_def)

lemma handleRedirect_ops: "snd (handleRedirect P shortId e) = [Get shortId]"
  by (simp add: handleRedirect_def handleRedirect_try_def catch_def split: sum.splits)

section \<open>Evaluations used below\<close>

lemma id_regex_x: "id_regex ''x''" by code_simp
lemma id_regex_bad: "\<not> id_regex ''bad id!''" by code_simp
lemma not_a_url: "scheme_start_state (preprocess ''not a url'') = None" by code_simp

lemma isValidUrl_not_a_url: "\<not> isValidUrl P (Str ''not a url'')"
  by (simp add: isValidUrl_def url_parse_no_scheme not_a_url)

section \<open>Creation on a key the store already holds\<close>

text \<open>
  C2 as the specification states it fails for a generated id: the branch that generates
  the id reads nothing from the store. With the source drawing 0 six times the id is
  aaaaaa; the store holds that key; the call answers 201 and its put, once landed,
  replaces the value.
\<close>

theorem generated_id_overwrites:
  "\<forall>P. handleCreate P
          \<lparr>http_method = ''POST'', pathname = ''/api/create'', origin = ''https://s.example'',
             payload = Json_object (Str ''mailto:a'') Undefined\<rparr>
          \<lparr>URL_KV = [''aaaaaa'' \<mapsto> ''mailto:b''], get_rejects = (\<lambda>k. False)\<rparr> (\<lambda>i. (0, 52))
        = (Response 201 (Json [(''shortUrl'', ''https://s.example/aaaaaa''), (''longUrl'', ''mailto:a'')])
             [(''Content-Type'', ''application/json'')],
           [Put ''aaaaaa'' ''mailto:a'']) \<and>
        URL_KV (land [Put ''aaaaaa'' ''mailto:a'']
          \<lparr>URL_KV = [''aaaaaa'' \<mapsto> ''mailto:b''], get_rejects = (\<lambda>k. False)\<rparr>) ''aaaaaa''
        = Some ''mailto:a''"
  by (simp add: handleCreate_generated [where lu = "Str ''mailto:a''" and cid = Undefined]
      isValidUrl_mailto id_aaaaaa created_def land_def)

text \<open>
  C2, as the code has it. For a supplied custom id (a truthy \<open>customId\<close>) that is a
  key of the store holding a non-empty value, creation fails (the status is not 201) and
  no put is issued: the call issues nothing, or only the read of that key. For an absent
  or falsy \<open>customId\<close> no existence check is made: on a valid URL the put for the
  generated id is issued whatever the store holds.
\<close>

theorem create_existing_key:
  "payload req = Json_object longUrl customId \<Longrightarrow>
   (ToBoolean customId \<longrightarrow> URL_KV e (ToString customId) = Some v \<longrightarrow> v \<noteq> [] \<longrightarrow>
      status (fst (handleCreate P req e rnd)) \<noteq> 201 \<and>
      (snd (handleCreate P req e rnd) = [] \<or>
       snd (handleCreate P req e rnd) = [Get (ToString customId)])) \<and>
   (\<not> ToBoolean customId \<longrightarrow> isValidUrl P longUrl \<longrightarrow>
      handleCreate P req e rnd =
        (created req (generateRandomId rnd 6) longUrl,
         [Put (generateRandomId rnd 6) (ToString longUrl)]))"
proof (intro conjI impI)
  assume req: "payload req = Json_object longUrl customId"
  {
    assume "\<not> ToBoolean customId" "isValidUrl P longUrl"
    with req show "handleCreate P req e rnd =
        (created req (generateRandomId rnd 6) longUrl,
         [Put (generateRandomId rnd 6) (ToString longUrl)])"
      by (simp add: handleCreate_generated)
  }
  assume supplied: "ToBoolean customId" and held: "URL_KV e (ToString customId) = Some v" "v \<noteq> []"
  have r: "handleCreate P req e rnd = (Response 400 (Text ''Invalid URL'') [], []) \<or>
        handleCreate P req e rnd =
          (Response 400 (Text ''Custom ID can only contain letters, numbers, hyphens, and underscores'') [], []) \<or>
        handleCreate P req e rnd = (internal_server_error, [Get (ToString customId)]) \<or>
        handleCreate P req e rnd =
          (Response 409 (Text ''Custom ID already exists'') [], [Get (ToString customId)])"
  proof (cases "isValidUrl P longUrl")
    case False
    with req show ?thesis by (simp add: handleCreate_invalid)
  next
    case valid: True
    show ?thesis
    proof (cases "id_regex (ToString customId)")
      case False
      with req valid supplied show ?thesis by (simp add: handleCreate_bad_id)
    next
      case matches: True
      show ?thesis
      proof (cases "get_rejects e (ToString customId)")
        case True
        with req valid supplied matches show ?thesis by (simp add: handleCreate_read_fails)
      next
        case False
        with req valid supplied matches held show ?thesis by (simp add: handleCreate_conflict)
      qed
    qed
  qed
  from r show "status (fst (handleCreate P req e rnd)) \<noteq> 201"
    by (auto simp: internal_server_error_def)
  from r show "snd (handleCreate P req e rnd) = [] \<or>
       snd (handleCreate P req e rnd) = [Get (ToString customId)]"
    by auto
qed

theorem create_existing_key_witness:
  "\<forall>P rnd.
     handleCreate P
       \<lparr>http_method = ''POST'', pathname = ''/api/create'', origin = ''https://s.example'',
          payload = Json_object (Str ''mailto:a'') Undefined\<rparr>
       \<lparr>URL_KV = [''x'' \<mapsto> ''mailto:b''], get_rejects = (\<lambda>k. False)\<rparr> rnd
     = (created \<lparr>http_method = ''POST'', pathname = ''/api/create'', origin = ''https://s.example'',
          payload = Json_object (Str ''mailto:a'') Undefined\<rparr> (generateRandomId rnd 6) (Str ''mailto:a''),
        [Put (generateRandomId rnd 6) ''mailto:a'']) \<and>
     status (fst (handleCreate P
       \<lparr>http_method = ''POST'', pathname = ''/api/create'', origin = ''https://s.example'',
          payload = Json_object (Str ''mailto:a'') (Str ''x'')\<rparr>
       \<lparr>URL_KV = [''x'' \<mapsto> ''mailto:b''], get_rejects = (\<lambda>k. False)\<rparr> rnd)) \<noteq> 201"
proof (intro allI)
  fix P rnd
  show "handleCreate P
       \<lparr>http_method = ''POST'', pathname = ''/api/create'', origin = ''https://s.example'',
          payload = Json_object (Str ''mailto:a'') Undefined\<rparr>
       \<lparr>URL_KV = [''x'' \<mapsto> ''mailto:b''], get_rejects = (\<lambda>k. False)\<rparr> rnd
     = (created \<lparr>http_method = ''POST'', pathname = ''/api/create'', origin = ''https://s.example'',
          payload = Json_object (Str ''mailto:a'') Undefined\<rparr> (generateRandomId rnd 6) (Str ''mailto:a''),
        [Put (generateRandomId rnd 6) ''mailto:a'']) \<and>
     status (fst (handleCreate P
       \<lparr>http_method = ''POST'', pathname = ''/api/create'', origin = ''https://s.example'',
          payload = Json_object (Str ''mailto:a'') (Str ''x'')\<rparr>
       \<lparr>URL_KV = [''x'' \<mapsto> ''mailto:b''], get_rejects = (\<lambda>k. False)\<rparr> rnd)) \<noteq> 201"
    using create_existing_key [of
        "\<lparr>http_method = ''POST'', pathname = ''/api/create'', origin = ''https://s.example'',
          payload = Json_object (Str ''mailto:a'') Undefined\<rparr>" "Str ''mailto:a''" Undefined
        "\<lparr>URL_KV = [''x'' \<mapsto> ''mailto:b''], get_rejects = (\<lambda>k. False)\<rparr>" "''mailto:b''" P rnd]
      create_existing_key [of
        "\<lparr>http_method = ''POST'', pathname = ''/api/create'', origin = ''https://s.example'',
          payload = Json_object (Str ''mailto:a'') (Str ''x'')\<rparr>" "Str ''mailto:a''" "Str ''x''"
        "\<lparr>URL_KV = [''x'' \<mapsto> ''mailto:b''], get_rejects = (\<lambda>k. False)\<rparr>" "''mailto:b''" P rnd]
    by (simp add: isValidUrl_mailto)
qed

section \<open>URL validation\<close>

text \<open>
  C3 as the specification states it fails: a string with a scheme that is not special and
  a remainder that does not begin with a slash parses with a null host, and create
  accepts it.
\<close>

theorem hostless_url_accepted:
  "\<forall>P e rnd.
     isValidUrl P (Str ''mailto:a'') \<and>
     map_option host (url_parse P ''mailto:a'') = Some None \<and>
     status (fst (handleCreate P
       \<lparr>http_method = ''POST'', pathname = ''/api/create'', origin = ''https://s.example'',
          payload = Json_object (Str ''mailto:a'') Undefined\<rparr> e rnd)) = 201"
  by (simp add: isValidUrl_mailto url_parse_mailto created_def
      handleCreate_generated [where lu = "Str ''mailto:a''" and cid = Undefined])

text \<open>
  C3, as the code has it. \<open>isValidUrl\<close> is true exactly when the URL constructor
  returns: the string has a scheme and, where the scheme is special or the remainder
  begins with a slash, the authority and path states succeed. A host is not required.
  On every value that does not parse, create answers 400 with the text Invalid URL and
  issues no store operation.
\<close>

theorem isValidUrl_iff_parses:
  "isValidUrl P longUrl =
     (case scheme_start_state (preprocess (ToString longUrl)) of
        None \<Rightarrow> False
      | Some (sch, remaining) \<Rightarrow>
          if List.member special_schemes sch \<or> starts_with_slash remaining
          then authority_path P sch remaining \<noteq> None else True) \<and>
   isValidUrl P longUrl = (url_parse P (ToString longUrl) \<noteq> None) \<and>
   (\<not> isValidUrl P longUrl \<longrightarrow> payload req = Json_object longUrl customId \<longrightarrow>
      handleCreate P req e rnd = (Response 400 (Text ''Invalid URL'') [], []))"
proof (intro conjI impI)
  show "isValidUrl P longUrl =
     (case scheme_start_state (preprocess (ToString longUrl)) of
        None \<Rightarrow> False
      | Some (sch, remaining) \<Rightarrow>
          if List.member special_schemes sch \<or> starts_with_slash remaining
          then authority_path P sch remaining \<noteq> None else True)"
    by (simp add: isValidUrl_def url_parse_def split: option.splits prod.splits)
  show "isValidUrl P longUrl = (url_parse P (ToString longUrl) \<noteq> None)"
    by (simp add: isValidUrl_def split: option.splits)
next
  assume "\<not> isValidUrl P longUrl" "payload req = Json_object longUrl customId"
  then show "handleCreate P req e rnd = (Response 400 (Text ''Invalid URL'') [], [])"
    by (simp add: handleCreate_invalid)
qed

theorem isValidUrl_iff_parses_witness:
  "\<forall>P e rnd.
     \<not> isValidUrl P (Str ''not a url'') \<and>
     handleCreate P
       \<lparr>http_method = ''POST'', pathname = ''/api/create'', origin = ''https://s.example'',
          payload = Json_object (Str ''not a url'') Undefined\<rparr> e rnd
     = (Response 400 (Text ''Invalid URL'') [], [])"
proof (intro allI)
  fix P e rnd
  show "\<not> isValidUrl P (Str ''not a url'') \<and>
     handleCreate P
       \<lparr>http_method = ''POST'', pathname = ''/api/create'', origin = ''https://s.example'',
          payload = Json_object (Str ''not a url'') Undefined\<rparr> e rnd
     = (Response 400 (Text ''Invalid URL'') [], [])"
    using isValidUrl_iff_parses [of P "Str ''not a url''"
        "\<lparr>http_method = ''POST'', pathname = ''/api/create'', origin = ''https://s.example'',
          payload = Json_object (Str ''not a url'') Undefined\<rparr>" Undefined e rnd]
    by (simp add: not_a_url)
qed

section \<open>Validation of the custom id\<close>

text \<open>
  C4 as the specification states it fails on the empty string, which is falsy and is
  treated as an absent custom id: an id is generated and the put is issued. And the URL
  is validated first, so with an invalid URL the text of the 400 is Invalid URL.
\<close>

theorem empty_custom_id_generates:
  "\<forall>P e.
     handleCreate P
       \<lparr>http_method = ''POST'', pathname = ''/api/create'', origin = ''https://s.example'',
          payload = Json_object (Str ''mailto:a'') (Str [])\<rparr> e (\<lambda>i. (0, 52))
     = (Response 201 (Json [(''shortUrl'', ''https://s.example/aaaaaa''), (''longUrl'', ''mailto:a'')])
          [(''Content-Type'', ''application/json'')],
        [Put ''aaaaaa'' ''mailto:a'']) \<and>
     handleCreate P
       \<lparr>http_method = ''POST'', pathname = ''/api/create'', origin = ''https://s.example'',
          payload = Json_object (Str ''not a url'') (Str ''bad id!'')\<rparr> e (\<lambda>i. (0, 52))
     = (Response 400 (Text ''Invalid URL'') [], [])"
  by (simp add: handleCreate_generated [where lu = "Str ''mailto:a''" and cid = "Str []"]
      handleCreate_invalid [where lu = "Str ''not a url''" and cid = "Str ''bad id!''"]
      isValidUrl_mailto isValidUrl_not_a_url id_aaaaaa created_def)

text \<open>
  C4, as the code has it. A supplied non-empty custom id that does not match
  \<open>^[a-zA-Z0-9_-]+$\<close> gets status 400 and no store operation is issued; the text is
  the custom id message when the URL is valid, and Invalid URL otherwise.
\<close>

theorem bad_custom_id_rejected:
  "payload req = Json_object longUrl (Str customId) \<Longrightarrow> customId \<noteq> [] \<Longrightarrow>
   \<not> id_regex customId \<Longrightarrow>
   handleCreate P req e rnd =
     (Response 400
        (Text (if isValidUrl P longUrl
               then ''Custom ID can only contain letters, numbers, hyphens, and underscores''
               else ''Invalid URL'')) [],
      [])"
  by (cases "isValidUrl P longUrl") (simp_all add: handleCreate_invalid handleCreate_bad_id)

theorem bad_custom_id_rejected_witness:
  "\<forall>P e rnd.
     handleCreate P
       \<lparr>http_method = ''POST'', pathname = ''/api/create'', origin = ''https://s.example'',
          payload = Json_object (Str ''mailto:a'') (Str ''bad id!'')\<rparr> e rnd
     = (Response 400
          (Text ''Custom ID can only contain letters, numbers, hyphens, and underscores'') [], [])"
proof (intro allI)
  fix P e rnd
  show "handleCreate P
       \<lparr>http_method = ''POST'', pathname = ''/api/create'', origin = ''https://s.example'',
          payload = Json_object (Str ''mailto:a'') (Str ''bad id!'')\<rparr> e rnd
     = (Response 400
          (Text ''Custom ID can only contain letters, numbers, hyphens, and underscores'') [], [])"
    using bad_custom_id_rejected [of
        "\<lparr>http_method = ''POST'', pathname = ''/api/create'', origin = ''https://s.example'',
          payload = Json_object (Str ''mailto:a'') (Str ''bad id!'')\<rparr>"
        "Str ''mailto:a''" "''bad id!''" P e rnd]
    by (simp add: id_regex_bad isValidUrl_mailto)
qed

lemma handleCreate_201:
  assumes "status (fst (handleCreate P req e rnd)) = 201"
  shows "\<exists>L cid shortId.
           payload req = Json_object (Str L) cid \<and> isValidUrl P (Str L) \<and> L \<noteq> [] \<and>
           shortId = (if ToBoolean cid then ToString cid else generateRandomId rnd 6) \<and>
           handleCreate P req e rnd =
             (created req shortId (Str L),
              (if ToBoolean cid then [Get shortId] else []) @ [Put shortId L])"
proof -
  from handleCreate_outcome [of P req e rnd] assms
  have "\<exists>lu cid. payload req = Json_object lu cid \<and> isValidUrl P lu \<and>
          handleCreate P req e rnd =
            (created req (if ToBoolean cid then ToString cid else generateRandomId rnd 6) lu,
             (if ToBoolean cid then [Get (ToString cid)] else []) @
             [Put (if ToBoolean cid then ToString cid else generateRandomId rnd 6) (ToString lu)])"
    by (elim disjE exE conjE) (auto simp: internal_server_error_def)
  then obtain lu cid where h: "payload req = Json_object lu cid" "isValidUrl P lu"
      "handleCreate P req e rnd =
            (created req (if ToBoolean cid then ToString cid else generateRandomId rnd 6) lu,
             (if ToBoolean cid then [Get (ToString cid)] else []) @
             [Put (if ToBoolean cid then ToString cid else generateRandomId rnd 6) (ToString lu)])"
    by blast
  from isValidUrl_is_string [OF h(2)] obtain L where L: "lu = Str L" "L \<noteq> []" by blast
  show ?thesis
    using h L by auto
qed

lemma land_put_last: "URL_KV (land (ops @ [Put k v]) e) k = Some v"
  by (simp add: land_def)

lemma get_rejects_land [simp]: "get_rejects (land ops e) = get_rejects e"
  by (simp add: land_def)

lemma url_parse_href:
  assumes "url_parse P L = Some u"
  shows "\<exists>sch remaining rest.
           scheme_start_state (preprocess L) = Some (sch, remaining) \<and>
           scheme u = sch \<and> href u = sch @ '':'' @ rest"
  using assms by (auto simp: url_parse_def split: option.splits prod.splits if_splits)

section \<open>Round trip\<close>

text \<open>
  C6, as the code has it. After a create that answered 201, whose operations have landed:
  the put carried the string \<open>L\<close> of the request unchanged and the store holds exactly
  \<open>L\<close> under the id of the returned short URL; a resolve of that id whose read
  succeeds reads exactly \<open>L\<close>, hands exactly \<open>L\<close> to \<open>Response.redirect\<close> and
  answers 302. The \<open>Location\<close> of that answer is the serialisation of \<open>L\<close> as
  parsed: the lower-cased scheme of \<open>L\<close>, a colon, and what the parser gives for the
  rest.
\<close>

theorem create_then_resolve:
  assumes run: "handleCreate P req e rnd = (resp, ops)" and ok: "status resp = 201"
  shows "\<exists>shortId L u.
           (\<exists>customId. payload req = Json_object (Str L) customId) \<and>
           resp = Response 201
                    (Json [(''shortUrl'', origin req @ ''/'' @ shortId), (''longUrl'', L)])
                    [(''Content-Type'', ''application/json'')] \<and>
           (ops = [Put shortId L] \<or> ops = [Get shortId, Put shortId L]) \<and>
           URL_KV (land ops e) shortId = Some L \<and>
           url_parse P L = Some u \<and>
           (\<exists>sch remaining rest.
              scheme_start_state (preprocess L) = Some (sch, remaining) \<and>
              href u = sch @ '':'' @ rest) \<and>
           (\<not> get_rejects e shortId \<longrightarrow>
              kv_get (land ops e) shortId = Inr (Str L) \<and>
              handleRedirect_try P shortId (land ops e) = (redirect P L 302, [Get shortId]) \<and>
              handleRedirect P shortId (land ops e) =
                (Response 302 No_body [(''Location'', href u)], [Get shortId]))"
proof -
  from run ok have "status (fst (handleCreate P req e rnd)) = 201" by simp
  from handleCreate_201 [OF this] run
  obtain L cid shortId where h:
      "payload req = Json_object (Str L) cid" "isValidUrl P (Str L)" "L \<noteq> []"
      "resp = created req shortId (Str L)"
      "ops = (if ToBoolean cid then [Get shortId] else []) @ [Put shortId L]"
    by auto
  from isValidUrl_parses [OF h(2)] obtain u where u: "url_parse P L = Some u" by blast
  have stored: "URL_KV (land ops e) shortId = Some L"
    unfolding h(5) by (rule land_put_last)
  have read: "kv_get (land ops e) shortId = Inr (Str L)" if "\<not> get_rejects e shortId"
    using that stored by (simp add: kv_get_def)
  have resolve: "handleRedirect P shortId (land ops e) =
                (Response 302 No_body [(''Location'', href u)], [Get shortId])"
    if "\<not> get_rejects e shortId"
    using that stored h(3) u by (simp add: handleRedirect_present)
  have handed: "handleRedirect_try P shortId (land ops e) = (redirect P L 302, [Get shortId])"
    if "\<not> get_rejects e shortId"
    using read [OF that] h(3) by (simp add: handleRedirect_try_def)
  have shape: "ops = [Put shortId L] \<or> ops = [Get shortId, Put shortId L]"
    using h(5) by simp
  from url_parse_href [OF u]
  have serial: "\<exists>sch remaining rest.
              scheme_start_state (preprocess L) = Some (sch, remaining) \<and>
              href u = sch @ '':'' @ rest"
    by blast
  have "(\<exists>customId. payload req = Json_object (Str L) customId) \<and>
           resp = Response 201
                    (Json [(''shortUrl'', origin req @ ''/'' @ shortId), (''longUrl'', L)])
                    [(''Content-Type'', ''application/json'')]"
    using h(1,4) by (simp add: created_def)
  with shape stored u serial read handed resolve show ?thesis
    by blast
qed

lemma create_mailto_upper:
  "handleCreate P
     \<lparr>http_method = ''POST'', pathname = ''/api/create'', origin = ''https://s.example'',
        payload = Json_object (Str ''MAILTO:a'') (Str ''x'')\<rparr>
     \<lparr>URL_KV = Map.empty, get_rejects = (\<lambda>k. False)\<rparr> rnd
   = (Response 201 (Json [(''shortUrl'', ''https://s.example/x''), (''longUrl'', ''MAILTO:a'')])
        [(''Content-Type'', ''application/json'')],
      [Get ''x'', Put ''x'' ''MAILTO:a''])"
  by (simp add: handleCreate_custom [where lu = "Str ''MAILTO:a''" and cid = "Str ''x''"]
      isValidUrl_mailto_upper id_regex_x created_def)

theorem create_then_resolve_witness:
  "\<forall>P rnd. \<exists>shortId L u.
     (\<exists>customId. Json_object (Str ''MAILTO:a'') (Str ''x'') = Json_object (Str L) customId) \<and>
     Response 201 (Json [(''shortUrl'', ''https://s.example/x''), (''longUrl'', ''MAILTO:a'')])
        [(''Content-Type'', ''application/json'')]
       = Response 201 (Json [(''shortUrl'', ''https://s.example'' @ ''/'' @ shortId), (''longUrl'', L)])
           [(''Content-Type'', ''application/json'')] \<and>
     URL_KV (land [Get ''x'', Put ''x'' ''MAILTO:a'']
        \<lparr>URL_KV = Map.empty, get_rejects = (\<lambda>k. False)\<rparr>) shortId = Some L \<and>
     url_parse P L = Some u \<and>
     handleRedirect P shortId (land [Get ''x'', Put ''x'' ''MAILTO:a'']
        \<lparr>URL_KV = Map.empty, get_rejects = (\<lambda>k. False)\<rparr>)
       = (Response 302 No_body [(''Location'', href u)], [Get shortId])"
proof (intro allI)
  fix P rnd
  have s: "status (Response 201 (Json [(''shortUrl'', ''https://s.example/x''), (''longUrl'', ''MAILTO:a'')])
        [(''Content-Type'', ''application/json'')]) = 201" by simp
  from create_then_resolve [OF create_mailto_upper [of P rnd] s]
  show "\<exists>shortId L u.
     (\<exists>customId. Json_object (Str ''MAILTO:a'') (Str ''x'') = Json_object (Str L) customId) \<and>
     Response 201 (Json [(''shortUrl'', ''https://s.example/x''), (''longUrl'', ''MAILTO:a'')])
        [(''Content-Type'', ''application/json'')]
       = Response 201 (Json [(''shortUrl'', ''https://s.example'' @ ''/'' @ shortId), (''longUrl'', L)])
           [(''Content-Type'', ''application/json'')] \<and>
     URL_KV (land [Get ''x'', Put ''x'' ''MAILTO:a'']
        \<lparr>URL_KV = Map.empty, get_rejects = (\<lambda>k. False)\<rparr>) shortId = Some L \<and>
     url_parse P L = Some u \<and>
     handleRedirect P shortId (land [Get ''x'', Put ''x'' ''MAILTO:a'']
        \<lparr>URL_KV = Map.empty, get_rejects = (\<lambda>k. False)\<rparr>)
       = (Response 302 No_body [(''Location'', href u)], [Get shortId])"
    by simp blast
qed

text \<open>
  C6 as the specification states it fails on what the resolve returns: create accepts
  MAILTO:a and stores it as it is, and the redirect for its id carries a \<open>Location\<close>
  that begins with the lower-case scheme, not the string that was created.
\<close>

theorem round_trip_location_differs:
  "\<forall>P rnd.
     handleCreate P
       \<lparr>http_method = ''POST'', pathname = ''/api/create'', origin = ''https://s.example'',
          payload = Json_object (Str ''MAILTO:a'') (Str ''x'')\<rparr>
       \<lparr>URL_KV = Map.empty, get_rejects = (\<lambda>k. False)\<rparr> rnd
     = (Response 201 (Json [(''shortUrl'', ''https://s.example/x''), (''longUrl'', ''MAILTO:a'')])
          [(''Content-Type'', ''application/json'')],
        [Get ''x'', Put ''x'' ''MAILTO:a'']) \<and>
     handleRedirect P ''x''
       (land [Get ''x'', Put ''x'' ''MAILTO:a''] \<lparr>URL_KV = Map.empty, get_rejects = (\<lambda>k. False)\<rparr>)
     = (Response 302 No_body [(''Location'', ''mailto:'' @ opaque_path P ''a'')], [Get ''x'']) \<and>
     ''mailto:'' @ opaque_path P ''a'' \<noteq> ''MAILTO:a''"
proof (intro allI conjI)
  fix P rnd
  show "handleCreate P
       \<lparr>http_method = ''POST'', pathname = ''/api/create'', origin = ''https://s.example'',
          payload = Json_object (Str ''MAILTO:a'') (Str ''x'')\<rparr>
       \<lparr>URL_KV = Map.empty, get_rejects = (\<lambda>k. False)\<rparr> rnd
     = (Response 201 (Json [(''shortUrl'', ''https://s.example/x''), (''longUrl'', ''MAILTO:a'')])
          [(''Content-Type'', ''application/json'')],
        [Get ''x'', Put ''x'' ''MAILTO:a''])"
    by (rule create_mailto_upper)
  have "URL_KV (land [Get ''x'', Put ''x'' ''MAILTO:a'']
          \<lparr>URL_KV = Map.empty, get_rejects = (\<lambda>k. False)\<rparr>) ''x'' = Some ''MAILTO:a''"
    by (simp add: land_def)
  then show "handleRedirect P ''x''
       (land [Get ''x'', Put ''x'' ''MAILTO:a''] \<lparr>URL_KV = Map.empty, get_rejects = (\<lambda>k. False)\<rparr>)
     = (Response 302 No_body [(''Location'', ''mailto:'' @ opaque_path P ''a'')], [Get ''x''])"
    using handleRedirect_present [where v = "''MAILTO:a''" and P = P, OF _ _ _ url_parse_mailto_upper]
    by simp
  show "''mailto:'' @ opaque_path P ''a'' \<noteq> ''MAILTO:a''"
    by simp
qed

lemma create_mailto_x:
  "handleCreate P
     \<lparr>http_method = ''POST'', pathname = ''/api/create'', origin = ''https://s.example'',
        payload = Json_object (Str ''mailto:a'') (Str ''x'')\<rparr>
     \<lparr>URL_KV = Map.empty, get_rejects = (\<lambda>k. False)\<rparr> (\<lambda>i. (0, 52))
   = (created \<lparr>http_method = ''POST'', pathname = ''/api/create'', origin = ''https://s.example'',
        payload = Json_object (Str ''mailto:a'') (Str ''x'')\<rparr> ''x'' (Str ''mailto:a''),
      [Get ''x'', Put ''x'' ''mailto:a''])"
  by (simp add: handleCreate_custom [where lu = "Str ''mailto:a''" and cid = "Str ''x''"]
      isValidUrl_mailto id_regex_x)

lemma reachable_sample: "reachable P [''x'' \<mapsto> ''mailto:a'']"
proof -
  have "Put ''x'' ''mailto:a'' \<in> set (snd (handleCreate P
     \<lparr>http_method = ''POST'', pathname = ''/api/create'', origin = ''https://s.example'',
        payload = Json_object (Str ''mailto:a'') (Str ''x'')\<rparr>
     \<lparr>URL_KV = Map.empty, get_rejects = (\<lambda>k. False)\<rparr> (\<lambda>i. (0, 52))))"
    by (simp add: create_mailto_x)
  from reachable_put [OF reachable_empty this] show ?thesis .
qed

lemma reachable_sample_upper: "reachable P [''x'' \<mapsto> ''MAILTO:a'']"
proof -
  have "Put ''x'' ''MAILTO:a'' \<in> set (snd (handleCreate P
     \<lparr>http_method = ''POST'', pathname = ''/api/create'', origin = ''https://s.example'',
        payload = Json_object (Str ''MAILTO:a'') (Str ''x'')\<rparr>
     \<lparr>URL_KV = Map.empty, get_rejects = (\<lambda>k. False)\<rparr> (\<lambda>i. (0, 52))))"
    by (simp add: create_mailto_upper)
  from reachable_put [OF reachable_empty this] show ?thesis .
qed

section \<open>Conflict on a custom id\<close>

text \<open>
  C7. On a store the service can produce, for a valid URL and a supplied custom id that
  matches the pattern and is already a key, a create whose read of the key succeeds
  answers 409 with the text Custom ID already exists; it issues that read only, and
  the store is as before.
\<close>

theorem custom_id_conflict:
  assumes req: "payload req = Json_object longUrl (Str customId)"
    and valid: "isValidUrl P longUrl"
    and matches: "id_regex customId"
    and store: "reachable P (URL_KV e)"
    and held: "customId \<in> dom (URL_KV e)"
    and reads: "\<not> get_rejects e customId"
  shows "handleCreate P req e rnd =
           (Response 409 (Text ''Custom ID already exists'') [], [Get customId]) \<and>
         land (snd (handleCreate P req e rnd)) e = e"
proof -
  from held obtain v where v: "URL_KV e customId = Some v" by blast
  from reachable_values [OF store v] have nonempty: "v \<noteq> []" by simp
  from matches have supplied: "ToBoolean (Str customId)" by (simp add: id_regex_def)
  have "handleCreate P req e rnd =
           (Response 409 (Text ''Custom ID already exists'') [], [Get (ToString (Str customId))])"
    using req valid supplied _ _ _ nonempty
    by (rule handleCreate_conflict) (use matches reads v in simp_all)
  then show ?thesis by (simp add: land_get)
qed

theorem custom_id_conflict_witness:
  "\<forall>P rnd.
     handleCreate P
       \<lparr>http_method = ''POST'', pathname = ''/api/create'', origin = ''https://s.example'',
          payload = Json_object (Str ''mailto:a'') (Str ''x'')\<rparr>
       \<lparr>URL_KV = [''x'' \<mapsto> ''mailto:a''], get_rejects = (\<lambda>k. False)\<rparr> rnd
     = (Response 409 (Text ''Custom ID already exists'') [], [Get ''x''])"
proof (intro allI)
  fix P rnd
  show "handleCreate P
       \<lparr>http_method = ''POST'', pathname = ''/api/create'', origin = ''https://s.example'',
          payload = Json_object (Str ''mailto:a'') (Str ''x'')\<rparr>
       \<lparr>URL_KV = [''x'' \<mapsto> ''mailto:a''], get_rejects = (\<lambda>k. False)\<rparr> rnd
     = (Response 409 (Text ''Custom ID already exists'') [], [Get ''x''])"
    using custom_id_conflict [of
        "\<lparr>http_method = ''POST'', pathname = ''/api/create'', origin = ''https://s.example'',
          payload = Json_object (Str ''mailto:a'') (Str ''x'')\<rparr>" "Str ''mailto:a''" "''x''" P
        "\<lparr>URL_KV = [''x'' \<mapsto> ''mailto:a''], get_rejects = (\<lambda>k. False)\<rparr>" rnd]
    by (simp add: isValidUrl_mailto id_regex_x reachable_sample)
qed

section \<open>The outcomes of a resolve\<close>

text \<open>
  C8 as the specification states it fails on the header: \<open>Response.redirect\<close> sets
  \<open>Location\<close> to the serialisation of the parsed URL, which need not be the stored
  string. A store that create produces holds MAILTO:a; the redirect's Location begins
  with the lower-case scheme.
\<close>

theorem redirect_location_differs:
  "\<forall>P. reachable P [''x'' \<mapsto> ''MAILTO:a''] \<and>
       handleRedirect P ''x'' \<lparr>URL_KV = [''x'' \<mapsto> ''MAILTO:a''], get_rejects = (\<lambda>k. False)\<rparr>
       = (Response 302 No_body [(''Location'', ''mailto:'' @ opaque_path P ''a'')], [Get ''x'']) \<and>
       handleRedirect P ''x'' \<lparr>URL_KV = [''x'' \<mapsto> ''MAILTO:a''], get_rejects = (\<lambda>k. False)\<rparr>
       \<noteq> (Response 302 No_body [(''Location'', ''MAILTO:a'')], [Get ''x''])"
proof (intro allI)
  fix P
  have r: "handleRedirect P ''x'' \<lparr>URL_KV = [''x'' \<mapsto> ''MAILTO:a''], get_rejects = (\<lambda>k. False)\<rparr>
       = (Response 302 No_body [(''Location'', ''mailto:'' @ opaque_path P ''a'')], [Get ''x''])"
    using handleRedirect_present [where v = "''MAILTO:a''" and P = P, OF _ _ _ url_parse_mailto_upper]
    by simp
  show "reachable P [''x'' \<mapsto> ''MAILTO:a''] \<and>
       handleRedirect P ''x'' \<lparr>URL_KV = [''x'' \<mapsto> ''MAILTO:a''], get_rejects = (\<lambda>k. False)\<rparr>
       = (Response 302 No_body [(''Location'', ''mailto:'' @ opaque_path P ''a'')], [Get ''x'']) \<and>
       handleRedirect P ''x'' \<lparr>URL_KV = [''x'' \<mapsto> ''MAILTO:a''], get_rejects = (\<lambda>k. False)\<rparr>
       \<noteq> (Response 302 No_body [(''Location'', ''MAILTO:a'')], [Get ''x''])"
    unfolding r using reachable_sample_upper by simp
qed

text \<open>
  C8, as the code has it. On a store the service can produce, a resolve has exactly one
  of three outcomes: 500 with the text Internal Server Error when the read fails; 404
  with the text Short link not found when the read succeeds and no mapping exists; and,
  when the read succeeds and a mapping exists, 302 with \<open>Location\<close> set to the
  serialisation of the stored URL as the URL parser gives it.
\<close>

theorem resolve_outcomes:
  assumes store: "reachable P (URL_KV e)"
  shows "(get_rejects e shortId \<longrightarrow>
            handleRedirect P shortId e =
              (Response 500 (Text ''Internal Server Error'') [], [Get shortId])) \<and>
         (\<not> get_rejects e shortId \<longrightarrow> URL_KV e shortId = None \<longrightarrow>
            handleRedirect P shortId e =
              (Response 404 (Text ''Short link not found'') [], [Get shortId])) \<and>
         (\<not> get_rejects e shortId \<longrightarrow>
            (\<forall>v. URL_KV e shortId = Some v \<longrightarrow>
               (\<exists>u. url_parse P v = Some u \<and>
                  handleRedirect P shortId e =
                    (Response 302 No_body [(''Location'', href u)], [Get shortId]))))"
proof (intro conjI impI allI)
  assume "get_rejects e shortId"
  then show "handleRedirect P shortId e =
              (Response 500 (Text ''Internal Server Error'') [], [Get shortId])"
    by (rule handleRedirect_read_fails)
next
  assume "\<not> get_rejects e shortId" "URL_KV e shortId = None"
  then show "handleRedirect P shortId e =
              (Response 404 (Text ''Short link not found'') [], [Get shortId])"
    by (rule handleRedirect_absent)
next
  fix v
  assume reads: "\<not> get_rejects e shortId" and v: "URL_KV e shortId = Some v"
  from reachable_values [OF store v] have ok: "isValidUrl P (Str v)" "v \<noteq> []" by simp_all
  from isValidUrl_parses [OF ok(1)] obtain u where u: "url_parse P v = Some u" by blast
  from handleRedirect_present [OF reads v ok(2) u] u
  show "\<exists>u. url_parse P v = Some u \<and>
          handleRedirect P shortId e =
            (Response 302 No_body [(''Location'', href u)], [Get shortId])"
    by blast
qed

theorem resolve_outcomes_witness:
  "\<forall>P.
     handleRedirect P ''x'' \<lparr>URL_KV = [''x'' \<mapsto> ''mailto:a''], get_rejects = (\<lambda>k. k = ''z'')\<rparr>
       = (Response 302 No_body [(''Location'', ''mailto:'' @ opaque_path P ''a'')], [Get ''x'']) \<and>
     handleRedirect P ''y'' \<lparr>URL_KV = [''x'' \<mapsto> ''mailto:a''], get_rejects = (\<lambda>k. k = ''z'')\<rparr>
       = (Response 404 (Text ''Short link not found'') [], [Get ''y'']) \<and>
     handleRedirect P ''z'' \<lparr>URL_KV = [''x'' \<mapsto> ''mailto:a''], get_rejects = (\<lambda>k. k = ''z'')\<rparr>
       = (Response 500 (Text ''Internal Server Error'') [], [Get ''z''])"
proof (intro allI)
  fix P
  have s: "reachable P (URL_KV \<lparr>URL_KV = [''x'' \<mapsto> ''mailto:a''], get_rejects = (\<lambda>k. k = ''z'')\<rparr>)"
    by (simp add: reachable_sample)
  show "handleRedirect P ''x'' \<lparr>URL_KV = [''x'' \<mapsto> ''mailto:a''], get_rejects = (\<lambda>k. k = ''z'')\<rparr>
       = (Response 302 No_body [(''Location'', ''mailto:'' @ opaque_path P ''a'')], [Get ''x'']) \<and>
     handleRedirect P ''y'' \<lparr>URL_KV = [''x'' \<mapsto> ''mailto:a''], get_rejects = (\<lambda>k. k = ''z'')\<rparr>
       = (Response 404 (Text ''Short link not found'') [], [Get ''y'']) \<and>
     handleRedirect P ''z'' \<lparr>URL_KV = [''x'' \<mapsto> ''mailto:a''], get_rejects = (\<lambda>k. k = ''z'')\<rparr>
       = (Response 500 (Text ''Internal Server Error'') [], [Get ''z''])"
    using resolve_outcomes [OF s, of "''x''"] resolve_outcomes [OF s, of "''y''"]
      resolve_outcomes [OF s, of "''z''"]
    by (simp add: url_parse_mailto)
qed

section \<open>Resolve does not write\<close>

text \<open>
  C9. A resolve issues one store operation, the read of its key, and no write; the store
  after it is the store before it, and resolving again gives the same response.
\<close>

theorem resolve_reads_only:
  "snd (handleRedirect P shortId e) = [Get shortId] \<and>
   land (snd (handleRedirect P shortId e)) e = e \<and>
   handleRedirect P shortId (land (snd (handleRedirect P shortId e)) e) =
     handleRedirect P shortId e"
  by (simp add: handleRedirect_ops land_get)

section \<open>Truthiness and presence\<close>



end
